theory Spec2Isabelle
  imports Complex_Main
begin

section \<open>The video table and its data access functions (dao/video.js)\<close>

text \<open>
  The request sent to the Face2Face service. The \<open>param\<close> column of a video row holds
  \<open>JSON.stringify(param)\<close>; the model keeps the object itself. \<open>Dev_param\<close> is the
  object \<open>{ code }\<close> built in development mode, \<open>F2f_param\<close> the object built by
  \<open>callFace2FaceAPI\<close> (its constant fields chaofen, watermark_switch and pn are left out).
\<close>

datatype f2f_param =
  Dev_param string
| F2f_param string string string

fun param_code :: "f2f_param \<Rightarrow> string" where
  "param_code (Dev_param c) = c"
| "param_code (F2f_param audio_url video_url c) = c"

text \<open>
  One row of the table \<open>video\<close>. A column that can hold NULL is an option. The status is
  the stored string, as the code compares it.
\<close>

record video =
  video_id :: int
  name :: string
  status :: string
  message :: "string option"
  progress :: "int option"
  file_path :: "string option"
  audio_path :: "string option"
  param :: "f2f_param option"
  code :: "string option"
  duration :: "real option"
  created_at :: int
  model_id :: int
  voice_id :: "int option"
  text_content :: string

text \<open>
  The table is the list of its rows in the order a query without ORDER BY scans them
  (by rowid). None of the queries below has an ORDER BY clause.
\<close>

type_synonym store = "video list"

text \<open>One \<open>column = ?\<close> of an UPDATE statement built by \<open>update\<close>.\<close>

datatype assignment =
  Set_status string
| Set_message "string option"
| Set_progress "int option"
| Set_file_path "string option"
| Set_audio_path "string option"
| Set_param "f2f_param option"
| Set_code "string option"
| Set_duration "real option"

fun assign :: "assignment \<Rightarrow> video \<Rightarrow> video" where
  "assign (Set_status x) v = v\<lparr>status := x\<rparr>"
| "assign (Set_message x) v = v\<lparr>message := x\<rparr>"
| "assign (Set_progress x) v = v\<lparr>progress := x\<rparr>"
| "assign (Set_file_path x) v = v\<lparr>file_path := x\<rparr>"
| "assign (Set_audio_path x) v = v\<lparr>audio_path := x\<rparr>"
| "assign (Set_param x) v = v\<lparr>param := x\<rparr>"
| "assign (Set_code x) v = v\<lparr>code := x\<rparr>"
| "assign (Set_duration x) v = v\<lparr>duration := x\<rparr>"

text \<open>\<open>UPDATE video SET ... WHERE id = ?\<close>: every row with that id gets the assignments.\<close>

definition update :: "int \<Rightarrow> assignment list \<Rightarrow> store \<Rightarrow> store" where
  "update i sets s = map (\<lambda>v. if video_id v = i then fold assign sets v else v) s"

text \<open>\<open>SELECT * FROM video WHERE status = ?\<close>, all rows.\<close>

definition selectByStatus :: "string \<Rightarrow> store \<Rightarrow> video list" where
  "selectByStatus st s = filter (\<lambda>v. status v = st) s"

text \<open>\<open>SELECT * FROM video WHERE status = ? LIMIT 1\<close>: the first row, or undefined.\<close>

definition findFirstByStatus :: "string \<Rightarrow> store \<Rightarrow> video option" where
  "findFirstByStatus st s = find (\<lambda>v. status v = st) s"

text \<open>
  \<open>UPDATE video SET status = ?, message = ?, progress = ?, file_path = ? WHERE id = ?\<close>.
  The callers that leave out \<open>progress\<close> and \<open>file_path\<close> get the defaults 0 and the
  empty string; they pass them here explicitly.
\<close>

definition updateStatus ::
  "int \<Rightarrow> string \<Rightarrow> string option \<Rightarrow> int option \<Rightarrow> string option \<Rightarrow> store \<Rightarrow> store" where
  "updateStatus i st msg prog fp s =
     map (\<lambda>v. if video_id v = i
               then v\<lparr>status := st, message := msg, progress := prog, file_path := fp\<rparr>
               else v) s"

text \<open>\<open>SELECT * FROM video WHERE id = ?\<close>, one row or undefined.\<close>

definition selectByID :: "int \<Rightarrow> store \<Rightarrow> video option" where
  "selectByID i s = find (\<lambda>v. video_id v = i) s"

section \<open>Printing numbers in template strings\<close>

definition digit_char :: "nat \<Rightarrow> char" where
  "digit_char n = char_of (48 + n)"

function string_of_nat :: "nat \<Rightarrow> string" where
  "string_of_nat n =
     (if n < 10 then [digit_char n]
      else string_of_nat (n div 10) @ [digit_char (n mod 10)])"
  by pat_completeness auto
termination
  by (relation "measure (\<lambda>n. n)") auto

declare string_of_nat.simps [simp del]

definition string_of_int :: "int \<Rightarrow> string" where
  "string_of_int i = (if i < 0 then CHR ''-'' # string_of_nat (nat (- i)) else string_of_nat (nat i))"

section \<open>The task service (services/task.js)\<close>

text \<open>A waiting row with the two fields \<open>getWaitingTasks\<close> adds to it.\<close>

record waiting_task =
  task :: video
  queuePosition :: nat
  totalInQueue :: nat

definition getWaitingTasks :: "store \<Rightarrow> waiting_task list" where
  "getWaitingTasks s =
     (let waitingTasks = selectByStatus ''waiting'' s
      in map (\<lambda>(index, t). \<lparr>task = t, queuePosition = index + 1,
                               totalInQueue = length waitingTasks\<rparr>)
             (enumerate 0 waitingTasks))"

text \<open>
  \<open>retryFailedTask\<close> and \<open>cancelTask\<close> return the store they leave behind and either
  the message of the Error they throw or the value they return.
\<close>

definition retryFailedTask :: "int \<Rightarrow> store \<Rightarrow> store \<times> (string + bool)" where
  "retryFailedTask taskId s =
     (case selectByID taskId s of
        None \<Rightarrow> (s, Inl (''Task not found: '' @ string_of_int taskId))
      | Some v \<Rightarrow>
          if status v \<noteq> ''failed''
          then (s, Inl (''Task is not in failed status: '' @ string_of_int taskId))
          else (update taskId
                  [Set_status ''waiting'', Set_message (Some ''Retrying task...''),
                   Set_progress (Some 0)] s,
                Inr True))"

definition cancelTask :: "int \<Rightarrow> store \<Rightarrow> store \<times> (string + bool)" where
  "cancelTask taskId s =
     (case selectByID taskId s of
        None \<Rightarrow> (s, Inl (''Task not found: '' @ string_of_int taskId))
      | Some v \<Rightarrow>
          if status v \<notin> set [''waiting'', ''processing'', ''pending'']
          then (s, Inl (''Cannot cancel task in status: '' @ status v))
          else (update taskId
                  [Set_status ''failed'', Set_message (Some ''Task cancelled by user''),
                   Set_progress (Some 0)] s,
                Inr True))"

section \<open>The route that queues a video for generation (routes/videos.js)\<close>

text \<open>
  What the handler of \<open>POST /:id/generate\<close> throws: an AppError with its message and
  status code, or the ReferenceError of reading a name that is not bound, with that name.
\<close>

datatype route_error =
  AppError string nat
| ReferenceError string

text \<open>
  The handler returns the store, either what it throws or nothing, and the ids it hands
  to \<open>setImmediate(() => videoService.synthesizeVideo(id))\<close>. Its first statement after
  reading the id is \<open>videoDao.selectByID(id)\<close>; the first argument says whether the
  module binds the name \<open>videoDao\<close>.
\<close>

definition generate_handler ::
  "bool \<Rightarrow> int \<Rightarrow> store \<Rightarrow> store \<times> (route_error + unit) \<times> int list" where
  "generate_handler videoDao_bound i s =
     (if \<not> videoDao_bound then (s, Inl (ReferenceError ''videoDao''), [])
      else
        (case selectByID i s of
           None \<Rightarrow> (s, Inl (AppError ''Video not found'' 404), [])
         | Some v \<Rightarrow>
             if status v = ''processing'' \<or> status v = ''pending''
             then (s, Inl (AppError ''Video is already being processed'' 400), [])
             else (update i [Set_status ''waiting'', Set_progress (Some 0)] s, Inr (), [i])))"

text \<open>
  routes/videos.js imports express, the error handler, the logger, the config, the video
  service, \<open>audition\<close>, fs and path. It does not import dao/video.js, so \<open>videoDao\<close> is
  not bound in the module.
\<close>

definition generate :: "int \<Rightarrow> store \<Rightarrow> store \<times> (route_error + unit) \<times> int list" where
  "generate = generate_handler False"

section \<open>The collaborators of the video service\<close>

text \<open>
  The rows of the model and voice tables as far as \<open>synthesizeVideo\<close> reads them, and
  the answers of the Face2Face service.
\<close>

record f2f_model =
  video_path :: string
  model_voice_id :: "int option"

record voice =
  voice_row_id :: int

record submit_result =
  result_code :: int
  result_msg :: string

record status_data =
  data_status :: int
  data_msg :: string
  data_progress :: int
  data_result :: string

record status_response =
  response_code :: int
  response_msg :: string
  response_data :: "status_data option"

text \<open>
  Everything outside the video table that one run of the service consults: the
  environment variable NODE_ENV, the two other tables, the remote calls with their
  outcome (\<open>Inl\<close> is the message of the Error a call throws or rejects with), Node's
  \<open>path.join\<close>, and the message of the TypeError that the runtime throws when
  \<open>statusResponse.data\<close> is destructured and is undefined.
\<close>

record env =
  development :: bool
  modelDao_selectByID :: "int \<Rightarrow> f2f_model option"
  voiceDao_selectByID :: "int \<Rightarrow> voice option"
  makeAudioForVideo :: "int \<Rightarrow> string \<Rightarrow> string + string"
  randomUUID :: string
  makeVideoApi :: "f2f_param \<Rightarrow> string + submit_result"
  getVideoStatus :: "string option \<Rightarrow> string + status_response"
  assetPath_model :: string
  path_join :: "string \<Rightarrow> string \<Rightarrow> string"
  getVideoDuration :: "string \<Rightarrow> string + real"
  typeError_message :: string

text \<open>JavaScript truthiness of a nullable string and of a nullable number, and \<open>||\<close>.\<close>

fun truthy_string :: "string option \<Rightarrow> bool" where
  "truthy_string None = False"
| "truthy_string (Some x) = (x \<noteq> [])"

fun truthy_number :: "int option \<Rightarrow> bool" where
  "truthy_number None = False"
| "truthy_number (Some n) = (n \<noteq> 0)"

definition or_number :: "int option \<Rightarrow> int option \<Rightarrow> int option" where
  "or_number a b = (if truthy_number a then a else b)"

definition or_string :: "string \<Rightarrow> string \<Rightarrow> string" where
  "or_string a b = (if a \<noteq> [] then a else b)"

definition string_of_number :: "int option \<Rightarrow> string" where
  "string_of_number a = (case a of None \<Rightarrow> ''null'' | Some n \<Rightarrow> string_of_int n)"

section \<open>The video service (services/video.js)\<close>

definition callFace2FaceAPI :: "env \<Rightarrow> string \<Rightarrow> string \<Rightarrow> string + (f2f_param \<times> submit_result)" where
  "callFace2FaceAPI e audioPath videoPath =
     (let p = F2f_param audioPath videoPath (randomUUID e)
      in case makeVideoApi e p of
           Inl err \<Rightarrow> Inl err
         | Inr result \<Rightarrow> Inr (p, result))"

text \<open>The audio of a video: the file it has, or one made by the TTS service.\<close>

definition audio_of_video :: "env \<Rightarrow> video \<Rightarrow> f2f_model \<Rightarrow> string + string" where
  "audio_of_video e v m =
     (if truthy_string (audio_path v) then Inr (the (audio_path v))
      else
        (let key = or_number (voice_id v) (model_voice_id m)
         in case (case key of None \<Rightarrow> None | Some k \<Rightarrow> voiceDao_selectByID e k) of
              None \<Rightarrow> Inl (''Voice not found: '' @ string_of_number key)
            | Some vo \<Rightarrow> makeAudioForVideo e (voice_row_id vo) (text_content v)))"

text \<open>The answer of the Face2Face service, or the mock answer of development mode.\<close>

definition submit_video :: "env \<Rightarrow> string \<Rightarrow> string \<Rightarrow> string + (f2f_param \<times> submit_result)" where
  "submit_video e audioPath videoPath =
     (if development e
      then Inr (Dev_param (randomUUID e),
                \<lparr>result_code = 10000, result_msg = ''Development mode - task submitted''\<rparr>)
      else callFace2FaceAPI e audioPath videoPath)"

text \<open>
  The body of the \<open>try\<close> block of \<open>synthesizeVideo\<close> after its first update: \<open>Inl\<close> is
  the message of the Error thrown, \<open>Inr\<close> the store after the last update.
\<close>

definition synthesize_try :: "env \<Rightarrow> int \<Rightarrow> store \<Rightarrow> string + store" where
  "synthesize_try e videoId s =
     (case selectByID videoId s of
        None \<Rightarrow> Inl (''Video not found: '' @ string_of_int videoId)
      | Some v \<Rightarrow>
         (case modelDao_selectByID e (model_id v) of
            None \<Rightarrow> Inl (''Model not found: '' @ string_of_int (model_id v))
          | Some m \<Rightarrow>
             (case audio_of_video e v m of
                Inl err \<Rightarrow> Inl err
              | Inr audioPath \<Rightarrow>
                 (case submit_video e audioPath (video_path m) of
                    Inl err \<Rightarrow> Inl err
                  | Inr (p, result) \<Rightarrow>
                      if result_code result = 10000
                      then Inr (update videoId
                             [Set_file_path None, Set_status ''pending'',
                              Set_message (Some (or_string (result_msg result) ''Task submitted successfully'')),
                              Set_audio_path (Some audioPath), Set_param (Some p),
                              Set_code (Some (param_code p))] s)
                      else Inr (update videoId
                             [Set_file_path None, Set_status ''failed'',
                              Set_message (Some (or_string (result_msg result) ''Task submission failed'')),
                              Set_audio_path (Some audioPath), Set_param (Some p),
                              Set_code (Some (param_code p))] s)))))"

text \<open>
  \<open>synthesizeVideo\<close> returns the store and, when its \<open>catch\<close> block rethrows, the
  message of the Error its promise rejects with.
\<close>

definition synthesizeVideo :: "env \<Rightarrow> int \<Rightarrow> store \<Rightarrow> store \<times> string option" where
  "synthesizeVideo e videoId s =
     (let s1 = update videoId
                 [Set_file_path None, Set_status ''processing'',
                  Set_message (Some ''Submitting task...'')] s
      in case synthesize_try e videoId s1 of
           Inr s2 \<Rightarrow> (s2, None)
         | Inl err \<Rightarrow> (updateStatus videoId ''failed'' (Some err) (Some 0) (Some []) s1, Some err))"

text \<open>
  The definition above is a call that nothing interrupts. \<open>synthesizeVideo\<close> is an
  async function: a call runs until it awaits a remote call, and goes on when the
  answer is there; other code runs in between. The definitions below cut the same code
  at its two \<open>await\<close>s of remote calls. A call is queued
  with \<open>setImmediate\<close>, waits at \<open>await makeAudioForVideo(...)\<close> (holding the model, the
  voice and the text), waits at \<open>await callFace2FaceAPI(...)\<close> (holding the model and
  the audio path), or is settled: resolved, or rejected with a message.
\<close>

datatype call =
  Queued
| Await_tts f2f_model voice string
| Await_submit f2f_model string
| Settled "string option"

fun is_settled :: "call \<Rightarrow> bool" where
  "is_settled (Settled r) = True"
| "is_settled c = False"

text \<open>The \<open>catch\<close> block: the job is marked failed and the Error is thrown again.\<close>

definition synthesize_catch :: "int \<Rightarrow> string \<Rightarrow> store \<Rightarrow> store \<times> call" where
  "synthesize_catch videoId err s =
     (updateStatus videoId ''failed'' (Some err) (Some 0) (Some []) s, Settled (Some err))"

text \<open>The update that follows the answer of the render service, or the mock answer.\<close>

definition synthesize_submitted ::
  "int \<Rightarrow> string \<Rightarrow> f2f_param \<Rightarrow> submit_result \<Rightarrow> store \<Rightarrow> store \<times> call" where
  "synthesize_submitted videoId audioPath p result s =
     (if result_code result = 10000
      then (update videoId
              [Set_file_path None, Set_status ''pending'',
               Set_message (Some (or_string (result_msg result) ''Task submitted successfully'')),
               Set_audio_path (Some audioPath), Set_param (Some p),
               Set_code (Some (param_code p))] s, Settled None)
      else (update videoId
              [Set_file_path None, Set_status ''failed'',
               Set_message (Some (or_string (result_msg result) ''Task submission failed'')),
               Set_audio_path (Some audioPath), Set_param (Some p),
               Set_code (Some (param_code p))] s, Settled None))"

text \<open>
  Once the audio path is known: development mode goes on to the update without
  awaiting, production mode awaits \<open>callFace2FaceAPI\<close>.
\<close>

definition synthesize_with_audio ::
  "env \<Rightarrow> int \<Rightarrow> f2f_model \<Rightarrow> string \<Rightarrow> store \<Rightarrow> store \<times> call" where
  "synthesize_with_audio e videoId m audioPath s =
     (if development e
      then synthesize_submitted videoId audioPath (Dev_param (randomUUID e))
             \<lparr>result_code = 10000, result_msg = ''Development mode - task submitted''\<rparr> s
      else (s, Await_submit m audioPath))"

text \<open>A queued call, from its start to its first \<open>await\<close> of a remote call.\<close>

definition synthesize_begin :: "env \<Rightarrow> int \<Rightarrow> store \<Rightarrow> store \<times> call" where
  "synthesize_begin e videoId s =
     (let s1 = update videoId
                 [Set_file_path None, Set_status ''processing'',
                  Set_message (Some ''Submitting task...'')] s
      in case selectByID videoId s1 of
           None \<Rightarrow> synthesize_catch videoId (''Video not found: '' @ string_of_int videoId) s1
         | Some v \<Rightarrow>
            (case modelDao_selectByID e (model_id v) of
               None \<Rightarrow>
                 synthesize_catch videoId (''Model not found: '' @ string_of_int (model_id v)) s1
             | Some m \<Rightarrow>
                 if truthy_string (audio_path v)
                 then synthesize_with_audio e videoId m (the (audio_path v)) s1
                 else
                   (let key = or_number (voice_id v) (model_voice_id m)
                    in case (case key of None \<Rightarrow> None | Some k \<Rightarrow> voiceDao_selectByID e k) of
                         None \<Rightarrow>
                           synthesize_catch videoId
                             (''Voice not found: '' @ string_of_number key) s1
                       | Some vo \<Rightarrow> (s1, Await_tts m vo (text_content v)))))"

text \<open>
  One stretch of a call: from where it waits, with the answer of the remote call it
  waits for, to its next \<open>await\<close> or to its end. A settled call does nothing more.
\<close>

definition synthesize_step :: "env \<Rightarrow> int \<Rightarrow> call \<Rightarrow> store \<Rightarrow> store \<times> call" where
  "synthesize_step e videoId c s =
     (case c of
        Queued \<Rightarrow> synthesize_begin e videoId s
      | Await_tts m vo text \<Rightarrow>
          (case makeAudioForVideo e (voice_row_id vo) text of
             Inl err \<Rightarrow> synthesize_catch videoId err s
           | Inr audioPath \<Rightarrow> synthesize_with_audio e videoId m audioPath s)
      | Await_submit m audioPath \<Rightarrow>
          (case callFace2FaceAPI e audioPath (video_path m) of
             Inl err \<Rightarrow> synthesize_catch videoId err s
           | Inr (p, result) \<Rightarrow> synthesize_submitted videoId audioPath p result s)
      | Settled r \<Rightarrow> (s, Settled r))"

text \<open>
  \<open>processNextWaitingVideo\<close> changes no row; it returns the ids it hands to
  \<open>setImmediate(() => synthesizeVideo(video.id))\<close>.
\<close>

definition processNextWaitingVideo :: "store \<Rightarrow> int list" where
  "processNextWaitingVideo s =
     (case findFirstByStatus ''waiting'' s of
        None \<Rightarrow> []
      | Some v \<Rightarrow> [video_id v])"

definition handleVideoCompletion :: "env \<Rightarrow> video \<Rightarrow> status_data \<Rightarrow> store \<Rightarrow> store" where
  "handleVideoCompletion e v d s =
     (case (if development e then Inr 10
            else getVideoDuration e (path_join e (assetPath_model e) (data_result d))) of
        Inr dur \<Rightarrow>
          update (video_id v)
            [Set_status ''completed'', Set_message (Some (data_msg d)),
             Set_progress (Some (data_progress d)), Set_file_path (Some (data_result d)),
             Set_duration (Some dur)] s
      | Inl err \<Rightarrow>
          updateStatus (video_id v) ''failed''
            (Some (''Completion handling failed: '' @ err)) (Some 0) (Some []) s)"

text \<open>
  The \<open>try\<close> block of \<open>processPendingVideos\<close> for the pending video \<open>v\<close>: \<open>Inl\<close> is the
  message of an Error thrown before any update, \<open>Inr\<close> the store it leaves.
\<close>

definition check_status :: "env \<Rightarrow> video \<Rightarrow> store \<Rightarrow> string + store" where
  "check_status e v s =
     (case getVideoStatus e (code v) of
        Inl err \<Rightarrow> Inl err
      | Inr r \<Rightarrow>
          if response_code r \<in> set [9999, 10002, 10003]
          then Inr (updateStatus (video_id v) ''failed'' (Some (response_msg r)) (Some 0) (Some []) s)
          else if response_code r = 10000
          then (case response_data r of
                  None \<Rightarrow> Inl (typeError_message e)
                | Some d \<Rightarrow>
                    if data_status d = 1
                    then Inr (updateStatus (video_id v) ''pending'' (Some (data_msg d))
                                (Some (data_progress d)) (Some []) s)
                    else if data_status d = 2
                    then Inr (handleVideoCompletion e v d s)
                    else if data_status d = 3
                    then Inr (updateStatus (video_id v) ''failed'' (Some (data_msg d))
                                (Some 0) (Some []) s)
                    else Inr s)
          else Inr s)"

text \<open>
  \<open>processPendingVideos\<close> returns the store, the video it processed (or null) and the
  ids queued by its own call of \<open>processNextWaitingVideo\<close>.
\<close>

definition processPendingVideos :: "env \<Rightarrow> store \<Rightarrow> store \<times> video option \<times> int list" where
  "processPendingVideos e s =
     (case findFirstByStatus ''pending'' s of
        None \<Rightarrow> (s, None, processNextWaitingVideo s)
      | Some v \<Rightarrow>
         (case check_status e v s of
            Inr s' \<Rightarrow> (s', Some v, [])
          | Inl err \<Rightarrow>
              (updateStatus (video_id v) ''failed'' (Some (''Status check failed: '' @ err))
                 (Some 0) (Some []) s,
               Some v, [])))"

section \<open>The scheduler (services/task.js)\<close>

text \<open>
  \<open>processTaskQueue\<close> returns the store, the field \<open>processedVideo\<close> of its result and
  the ids queued for \<open>synthesizeVideo\<close> during the call, in the order they were queued.
  Nothing in its \<open>try\<close> block throws once the remote calls are values, so \<open>success\<close> is
  always true.
\<close>

definition processTaskQueue :: "env \<Rightarrow> store \<Rightarrow> store \<times> int option \<times> int list" where
  "processTaskQueue e s =
     (case processPendingVideos e s of
        (s1, processedVideo, q1) \<Rightarrow>
          (s1, map_option video_id processedVideo,
           q1 @ (if processedVideo = None then processNextWaitingVideo s1 else [])))"

text \<open>
  The callbacks queued with \<open>setImmediate\<close> run after the function that queued them has
  returned. A running call is its video id, the environment that answers its remote
  calls, and where it stands.
\<close>

type_synonym running = "int \<times> env \<times> call"

text \<open>The call at position \<open>k\<close> runs its next stretch; no such call, nothing happens.\<close>

definition resume_call :: "nat \<Rightarrow> running list \<Rightarrow> store \<Rightarrow> store \<times> running list" where
  "resume_call k cs s =
     (if k < length cs
      then (case cs ! k of
              (i, e, c) \<Rightarrow>
                (case synthesize_step e i c s of
                   (s1, c1) \<Rightarrow> (s1, cs[k := (i, e, c1)])))
      else (s, cs))"

fun resume_in_order :: "nat list \<Rightarrow> running list \<Rightarrow> store \<Rightarrow> store \<times> running list" where
  "resume_in_order [] cs s = (s, cs)"
| "resume_in_order (k # ks) cs s =
     (case resume_call k cs s of (s1, cs1) \<Rightarrow> resume_in_order ks cs1 s1)"

text \<open>Every call runs to its end, one call after the other: at most three stretches each.\<close>

fun settle_all :: "running list \<Rightarrow> store \<Rightarrow> store \<times> running list" where
  "settle_all [] s = (s, [])"
| "settle_all ((i, e, c) # cs) s =
     (case synthesize_step e i c s of
        (s1, c1) \<Rightarrow>
          (case synthesize_step e i c1 s1 of
             (s2, c2) \<Rightarrow>
               (case synthesize_step e i c2 s2 of
                  (s3, c3) \<Rightarrow>
                    (case settle_all cs s3 of (s4, cs4) \<Rightarrow> (s4, (i, e, c3) # cs4)))))"

text \<open>The messages of the rejected calls. Nothing handles the promise of a callback.\<close>

fun rejections :: "running list \<Rightarrow> string list" where
  "rejections [] = []"
| "rejections ((i, e, Settled (Some err)) # cs) = err # rejections cs"
| "rejections ((i, e, c) # cs) = rejections cs"

text \<open>
  The callbacks for the ids \<open>q\<close>, the \<open>k\<close>-th with the environment \<open>envs k\<close>. They start
  in the order they were queued, each running to its first \<open>await\<close> of a remote call.
  Then the answers come in: \<open>sched\<close> lists, in the order of the answers, the positions
  of the calls that go on. Calls that are not settled when \<open>sched\<close> is used up are run
  to their end, so that every call ends before anything else happens to the store.
\<close>

definition run_immediates ::
  "(nat \<Rightarrow> env) \<Rightarrow> nat list \<Rightarrow> int list \<Rightarrow> store \<Rightarrow> store \<times> string list" where
  "run_immediates envs sched q s =
     (case resume_in_order ([0..<length q] @ sched)
             (map (\<lambda>(k, i). (i, envs k, Queued)) (enumerate 0 q)) s of
        (s1, cs1) \<Rightarrow>
          (case settle_all cs1 s1 of (s2, cs2) \<Rightarrow> (s2, rejections cs2)))"

text \<open>One tick: \<open>processTaskQueue\<close>, then the callbacks it queued.\<close>

definition tick :: "env \<Rightarrow> (nat \<Rightarrow> env) \<Rightarrow> nat list \<Rightarrow> store \<Rightarrow> store \<times> string list" where
  "tick e envs sched s =
     (case processTaskQueue e s of
        (s1, processedVideo, q) \<Rightarrow> run_immediates envs sched q s1)"

text \<open>Ticks and user actions, and the store after a sequence of them.\<close>

datatype event =
  Tick env "nat \<Rightarrow> env" "nat list"
| Generate int env
| Cancel int
| Retry int

fun step :: "event \<Rightarrow> store \<Rightarrow> store" where
  "step (Tick e envs sched) s = fst (tick e envs sched s)"
| "step (Generate i e) s =
     (case generate i s of (s1, r, q) \<Rightarrow> fst (run_immediates (\<lambda>k. e) [] q s1))"
| "step (Cancel i) s = fst (cancelTask i s)"
| "step (Retry i) s = fst (retryFailedTask i s)"

definition run :: "event list \<Rightarrow> store \<Rightarrow> store" where
  "run evs s = fold step evs s"

section \<open>Notions used by the properties\<close>

text \<open>The jobs that occupy the render service: status processing or pending.\<close>

definition in_flight :: "store \<Rightarrow> video list" where
  "in_flight s = filter (\<lambda>v. status v = ''processing'' \<or> status v = ''pending'') s"

text \<open>
  \<open>changes_row i S s s'\<close>: the store \<open>s'\<close> has the rows of \<open>s\<close>, in the same order and
  with the same ids; a row whose id is not \<open>i\<close> is the same, a row whose id is \<open>i\<close> has
  a status in \<open>S\<close>.
\<close>

definition changes_row :: "int \<Rightarrow> string set \<Rightarrow> store \<Rightarrow> store \<Rightarrow> bool" where
  "changes_row i S s s' =
     list_all2 (\<lambda>v v'. video_id v' = video_id v \<and>
                  (if video_id v = i then status v' \<in> S else v' = v)) s s'"


text \<open>The stretches a call has left at most.\<close>

fun stretches_left :: "call \<Rightarrow> nat" where
  "stretches_left Queued = 3"
| "stretches_left (Await_tts m vo text) = 2"
| "stretches_left (Await_submit m a) = 1"
| "stretches_left (Settled r) = 0"

text \<open>
  While the calls for one video run: the store is the one they started from, or differs
  from it in that video's row only; once all are settled the row is pending or failed.
\<close>

definition calls_for :: "int \<Rightarrow> running list \<Rightarrow> bool" where
  "calls_for a cs = list_all (\<lambda>r. fst r = a) cs"

definition all_settled :: "running list \<Rightarrow> bool" where
  "all_settled cs = list_all (\<lambda>r. is_settled (snd (snd r))) cs"

definition midway :: "int \<Rightarrow> store \<Rightarrow> running list \<Rightarrow> store \<Rightarrow> bool" where
  "midway a s0 cs s =
     (calls_for a cs \<and>
      (s = s0 \<or> changes_row a {''processing'', ''pending'', ''failed''} s0 s) \<and>
      (if all_settled cs then changes_row a {''pending'', ''failed''} s0 s else True))"

section \<open>Example rows and collaborators\<close>

definition video_row :: "int \<Rightarrow> string \<Rightarrow> int \<Rightarrow> video" where
  "video_row i st t =
     \<lparr>video_id = i, name = ''clip'', status = st, message = None, progress = None,
      file_path = None, audio_path = None, param = None, code = None, duration = None,
      created_at = t, model_id = 1, voice_id = Some 1, text_content = ''Hello''\<rparr>"

text \<open>
  Production mode, model 1 and voice 1 exist, the TTS service returns a1.wav, the render
  service accepts the request h1 and reports it running at 40 percent.
\<close>

definition gateways :: env where
  "gateways =
     \<lparr>development = False,
      modelDao_selectByID =
        (\<lambda>i. if i = 1 then Some \<lparr>video_path = ''m1.mp4'', model_voice_id = Some 1\<rparr> else None),
      voiceDao_selectByID = (\<lambda>i. if i = 1 then Some \<lparr>voice_row_id = 1\<rparr> else None),
      makeAudioForVideo = (\<lambda>v t. Inr ''a1.wav''),
      randomUUID = ''h1'',
      makeVideoApi = (\<lambda>p. Inr \<lparr>result_code = 10000, result_msg = ''accepted''\<rparr>),
      getVideoStatus =
        (\<lambda>c. Inr \<lparr>response_code = 10000, response_msg = ''ok'',
                    response_data = Some \<lparr>data_status = 1, data_msg = ''running'',
                                          data_progress = 40, data_result = []\<rparr>\<rparr>),
      assetPath_model = ''/data/model'',
      path_join = (\<lambda>d f. d @ ''/'' @ f),
      getVideoDuration = (\<lambda>p. Inr 12.3),
      typeError_message =
        ''Cannot destructure property 'status' of 'statusResponse.data' as it is undefined.''\<rparr>"

section \<open>Rows, ids and queries\<close>

lemma video_id_assign [simp]: "video_id (assign a v) = video_id v"
  by (cases a) simp_all

lemma video_id_fold_assign [simp]: "video_id (fold assign sets v) = video_id v"
  by (induction sets arbitrary: v) simp_all

lemma find_map_same:
  "(\<And>v. P (f v) = P v) \<Longrightarrow> find P (map f s) = map_option f (find P s)"
  by (induction s) simp_all

lemma selectByID_update:
  "selectByID i (update j sets s) =
     map_option (\<lambda>v. if video_id v = j then fold assign sets v else v) (selectByID i s)"
  unfolding selectByID_def update_def by (rule find_map_same) simp

lemma selectByID_updateStatus:
  "selectByID i (updateStatus j st msg prog fp s) =
     map_option (\<lambda>v. if video_id v = j
        then v\<lparr>status := st, message := msg, progress := prog, file_path := fp\<rparr> else v)
       (selectByID i s)"
  unfolding selectByID_def updateStatus_def by (rule find_map_same) simp

lemma selectByID_video_id: "selectByID i s = Some v \<Longrightarrow> video_id v = i"
  unfolding selectByID_def by (induction s) (auto split: if_splits)

lemma find_Some_set: "find P xs = Some x \<Longrightarrow> x \<in> set xs \<and> P x"
  by (induction xs) (auto split: if_splits)

lemma find_None_filter: "(find P xs = None) = (filter P xs = [])"
  by (induction xs) auto

lemma selectByID_distinct:
  "distinct (map video_id s) \<Longrightarrow> v \<in> set s \<Longrightarrow> selectByID (video_id v) s = Some v"
  unfolding selectByID_def by (induction s) (auto simp: image_iff)

lemma same_id_same_row:
  "distinct (map video_id s) \<Longrightarrow> v \<in> set s \<Longrightarrow> w \<in> set s \<Longrightarrow> video_id v = video_id w \<Longrightarrow> v = w"
  by (induction s) (auto simp: image_iff)

lemma strict_sorted_count_less:
  "sorted_wrt (\<lambda>a b. f a < (f b :: int)) xs \<Longrightarrow> k < length xs \<Longrightarrow>
     length (filter (\<lambda>w. f w < f (xs ! k)) xs) = k"
proof (induction xs arbitrary: k)
  case Nil
  then show ?case by simp
next
  case (Cons x xs)
  show ?case
  proof (cases k)
    case 0
    have "filter (\<lambda>w. f w < f x) xs = []"
      using Cons.prems(1) by (auto simp: filter_empty_conv)
    then show ?thesis using 0 by simp
  next
    case (Suc j)
    then have j: "j < length xs" using Cons.prems(2) by simp
    have "f x < f (xs ! j)" using Cons.prems(1) j by simp
    moreover have "length (filter (\<lambda>w. f w < f (xs ! j)) xs) = j"
      using Cons.IH Cons.prems(1) j by simp
    ultimately show ?thesis using Suc by simp
  qed
qed

lemma getWaitingTasks_nth:
  "k < length (selectByStatus ''waiting'' s) \<Longrightarrow>
     getWaitingTasks s ! k =
       \<lparr>task = selectByStatus ''waiting'' s ! k, queuePosition = k + 1,
        totalInQueue = length (selectByStatus ''waiting'' s)\<rparr>"
  by (simp add: getWaitingTasks_def Let_def nth_enumerate_eq)

lemma length_getWaitingTasks:
  "length (getWaitingTasks s) = length (selectByStatus ''waiting'' s)"
  by (simp add: getWaitingTasks_def Let_def)

lemma waiting_filter_split:
  "filter (\<lambda>w. status w = ''waiting'' \<and> created_at w < c) s =
     filter (\<lambda>w. created_at w < c) (selectByStatus ''waiting'' s)"
  by (simp add: selectByStatus_def conj_commute)

section \<open>Stores that differ in one row\<close>

lemma changes_row_map:
  "changes_row i S s (map f s) =
     (\<forall>v \<in> set s. video_id (f v) = video_id v \<and>
                     (if video_id v = i then status (f v) \<in> S else f v = v))"
  by (simp add: changes_row_def list_all2_map2 list_all2_same)

lemma changes_row_trans:
  assumes "changes_row i S s s1" and "changes_row i T s1 s2"
  shows "changes_row i T s s2"
  unfolding changes_row_def
  by (rule list_all2_trans [OF _ assms [unfolded changes_row_def]]) (auto split: if_splits)



lemma list_all2_set1: "list_all2 P xs ys \<Longrightarrow> x \<in> set xs \<Longrightarrow> \<exists>y \<in> set ys. P x y"
  by (induction xs ys rule: list_all2_induct) auto


lemma changes_row_keeps:
  "changes_row i S s s' \<Longrightarrow> v \<in> set s \<Longrightarrow> video_id v \<noteq> i \<Longrightarrow> v \<in> set s'"
  unfolding changes_row_def by (drule (1) list_all2_set1) auto

lemma changes_row_selectByID:
  "changes_row i S s s' \<Longrightarrow> selectByID i s = Some v \<Longrightarrow>
     \<exists>v'. selectByID i s' = Some v' \<and> status v' \<in> S"
  unfolding changes_row_def selectByID_def
  by (induction s s' rule: list_all2_induct) (auto split: if_splits)

lemma changes_row_mono: "changes_row i S s s' \<Longrightarrow> S \<subseteq> T \<Longrightarrow> changes_row i T s s'"
  unfolding changes_row_def by (erule list_all2_mono) (auto split: if_splits)

lemma changes_row_refl:
  "(\<And>v. v \<in> set s \<Longrightarrow> video_id v = i \<Longrightarrow> status v \<in> S) \<Longrightarrow> changes_row i S s s"
  by (simp add: changes_row_def list_all2_same)

section \<open>What one call changes\<close>

lemma changes_row_after:
  assumes "s = s0 \<or> changes_row i S s0 s" and "changes_row i T s s'"
  shows "changes_row i T s0 s'"
  using assms changes_row_trans by blast

lemma synthesize_step_settled:
  "is_settled c \<Longrightarrow> synthesize_step e i c s = (s, c)"
  by (cases c) (simp_all add: synthesize_step_def)

lemma synthesize_step_writes:
  "synthesize_step e i c s = (s', c') \<Longrightarrow>
     s' = s \<or> changes_row i {''processing'', ''pending'', ''failed''} s s'"
  by (cases c)
     (auto simp: synthesize_step_def synthesize_begin_def synthesize_with_audio_def
        synthesize_submitted_def synthesize_catch_def callFace2FaceAPI_def
        update_def updateStatus_def Let_def changes_row_map
      split: option.splits sum.splits prod.splits if_splits)

lemma synthesize_step_settles:
  "synthesize_step e i c s = (s', c') \<Longrightarrow> \<not> is_settled c \<Longrightarrow> is_settled c' \<Longrightarrow>
     changes_row i {''pending'', ''failed''} s s'"
  by (cases c)
     (auto simp: synthesize_step_def synthesize_begin_def synthesize_with_audio_def
        synthesize_submitted_def synthesize_catch_def callFace2FaceAPI_def
        update_def updateStatus_def Let_def changes_row_map
      split: option.splits sum.splits prod.splits if_splits)

lemma synthesize_step_progress:
  "synthesize_step e i c s = (s', c') \<Longrightarrow> stretches_left c' \<le> stretches_left c - 1"
  by (cases c)
     (auto simp: synthesize_step_def synthesize_begin_def synthesize_with_audio_def
        synthesize_submitted_def synthesize_catch_def callFace2FaceAPI_def Let_def
      split: option.splits sum.splits prod.splits if_splits)

lemma stretches_left_0: "(stretches_left c = 0) = is_settled c"
  by (cases c) simp_all


lemma writes_after:
  assumes "s = s0 \<or> changes_row i {''processing'', ''pending'', ''failed''} s0 s"
    and "s' = s \<or> changes_row i {''processing'', ''pending'', ''failed''} s s'"
  shows "s' = s0 \<or> changes_row i {''processing'', ''pending'', ''failed''} s0 s'"
  using assms changes_row_trans by blast

lemma three_stretches:
  assumes 1: "synthesize_step e i c s = (s1, c1)"
    and 2: "synthesize_step e i c1 s1 = (s2, c2)"
    and 3: "synthesize_step e i c2 s2 = (s3, c3)"
  shows "is_settled c3"
    and "is_settled c \<Longrightarrow> s3 = s \<and> c3 = c"
    and "\<not> is_settled c \<Longrightarrow> changes_row i {''pending'', ''failed''} s s3"
    and "s3 = s \<or> changes_row i {''processing'', ''pending'', ''failed''} s s3"
proof -
  have "stretches_left c3 \<le> stretches_left c - 3"
    using synthesize_step_progress [OF 1] synthesize_step_progress [OF 2]
      synthesize_step_progress [OF 3] by simp
  moreover have "stretches_left c \<le> 3" by (cases c) simp_all
  ultimately show "is_settled c3" by (simp add: stretches_left_0 [symmetric])
  show "s3 = s \<and> c3 = c" if "is_settled c"
    using that 1 2 3 by (simp add: synthesize_step_settled)
  have w1: "s1 = s \<or> changes_row i {''processing'', ''pending'', ''failed''} s s1"
    using 1 by (rule synthesize_step_writes)
  have w2: "s2 = s \<or> changes_row i {''processing'', ''pending'', ''failed''} s s2"
    using w1 synthesize_step_writes [OF 2] changes_row_trans by blast
  show "s3 = s \<or> changes_row i {''processing'', ''pending'', ''failed''} s s3"
    using w2 synthesize_step_writes [OF 3] changes_row_trans by blast
  show "changes_row i {''pending'', ''failed''} s s3" if n: "\<not> is_settled c"
  proof (cases "is_settled c1")
    case True
    have "changes_row i {''pending'', ''failed''} s s1"
      using 1 n True by (rule synthesize_step_settles)
    moreover have "s2 = s1" "c2 = c1" using 2 True by (simp_all add: synthesize_step_settled)
    moreover have "s3 = s1" using 3 True \<open>s2 = s1\<close> \<open>c2 = c1\<close> by (simp add: synthesize_step_settled)
    ultimately show ?thesis by simp
  next
    case n1: False
    show ?thesis
    proof (cases "is_settled c2")
      case True
      have "changes_row i {''pending'', ''failed''} s1 s2"
        using 2 n1 True by (rule synthesize_step_settles)
      then have "changes_row i {''pending'', ''failed''} s s2"
        using w1 changes_row_trans by blast
      moreover have "s3 = s2" using 3 True by (simp add: synthesize_step_settled)
      ultimately show ?thesis by simp
    next
      case n2: False
      have "changes_row i {''pending'', ''failed''} s2 s3"
        using 3 n2 \<open>is_settled c3\<close> by (rule synthesize_step_settles)
      then show ?thesis using w2 changes_row_trans by blast
    qed
  qed
qed

lemma midway_resume_call:
  assumes "midway a s0 cs s" and "resume_call k cs s = (s', cs')"
  shows "midway a s0 cs' s'"
proof (cases "k < length cs")
  case False
  then show ?thesis using assms by (simp add: resume_call_def)
next
  case True
  obtain i e c where r: "cs ! k = (i, e, c)" by (cases "cs ! k")
  obtain s1 c1 where st: "synthesize_step e i c s = (s1, c1)" by (cases "synthesize_step e i c s")
  have res: "s' = s1" "cs' = cs[k := (i, e, c1)]"
    using assms(2) True r st by (simp_all add: resume_call_def)
  have mem: "(i, e, c) \<in> set cs" using True r by (metis nth_mem)
  have i: "i = a"
    using assms(1) mem by (auto simp: midway_def calls_for_def list_all_iff)
  have cf: "calls_for a cs'"
    using assms(1) i unfolding res midway_def calls_for_def list_all_iff
    by (auto dest!: set_update_subset_insert [THEN subsetD])
  have w: "s' = s0 \<or> changes_row a {''processing'', ''pending'', ''failed''} s0 s'"
    using assms(1) synthesize_step_writes [OF st] changes_row_trans
    unfolding res midway_def i by blast
  have f: "changes_row a {''pending'', ''failed''} s0 s'" if all: "all_settled cs'"
  proof (cases "is_settled c")
    case True
    then have "s1 = s" "c1 = c" using st by (simp_all add: synthesize_step_settled)
    then have "cs' = cs" "s' = s" using res r [symmetric] by (simp_all add: list_update_id)
    then show ?thesis using assms(1) all by (simp add: midway_def)
  next
    case False
    have "(i, e, c1) \<in> set cs'" unfolding res using True by (simp add: set_update_memI)
    then have "is_settled c1" using all by (auto simp: all_settled_def list_all_iff)
    then have "changes_row a {''pending'', ''failed''} s s1"
      using synthesize_step_settles [OF st False] i by simp
    then show ?thesis
      using assms(1) changes_row_trans unfolding res midway_def by blast
  qed
  show ?thesis using cf w f by (simp add: midway_def)
qed

lemma midway_resume_in_order:
  "midway a s0 cs s \<Longrightarrow> resume_in_order ks cs s = (s', cs') \<Longrightarrow> midway a s0 cs' s'"
proof (induction ks arbitrary: cs s)
  case Nil
  then show ?case by simp
next
  case (Cons k ks)
  obtain s1 cs1 where r: "resume_call k cs s = (s1, cs1)" by (cases "resume_call k cs s")
  have "midway a s0 cs1 s1" using Cons.prems(1) r by (rule midway_resume_call)
  then show ?case using Cons.IH [of cs1 s1] Cons.prems(2) r by simp
qed

lemma midway_settle_all:
  "midway a s0 cs s \<Longrightarrow> settle_all cs s = (s', cs') \<Longrightarrow>
     changes_row a {''pending'', ''failed''} s0 s' \<and> all_settled cs' \<and> length cs' = length cs"
proof (induction cs arbitrary: s s' cs')
  case Nil
  then show ?case by (simp add: midway_def all_settled_def)
next
  case (Cons r cs)
  obtain i e c where r: "r = (i, e, c)" by (cases r)
  obtain s1 c1 where 1: "synthesize_step e i c s = (s1, c1)" by (cases "synthesize_step e i c s")
  obtain s2 c2 where 2: "synthesize_step e i c1 s1 = (s2, c2)" by (cases "synthesize_step e i c1 s1")
  obtain s3 c3 where 3: "synthesize_step e i c2 s2 = (s3, c3)" by (cases "synthesize_step e i c2 s2")
  obtain s4 cs4 where 4: "settle_all cs s3 = (s4, cs4)" by (cases "settle_all cs s3")
  have res: "s' = s4" "cs' = (i, e, c3) # cs4"
    using Cons.prems(2) r 1 2 3 4 by simp_all
  have i: "i = a" and cf: "calls_for a cs"
    using Cons.prems(1) r by (simp_all add: midway_def calls_for_def)
  have w0: "s = s0 \<or> changes_row a {''processing'', ''pending'', ''failed''} s0 s"
    using Cons.prems(1) by (simp add: midway_def)
  have w: "s3 = s0 \<or> changes_row a {''processing'', ''pending'', ''failed''} s0 s3"
    using w0 three_stretches(4) [OF 1 2 3] changes_row_trans unfolding i by blast
  have f: "changes_row a {''pending'', ''failed''} s0 s3" if all: "all_settled cs"
  proof (cases "is_settled c")
    case True
    then have "s3 = s" using three_stretches(2) [OF 1 2 3] by simp
    moreover have "all_settled (r # cs)" using all True r by (simp add: all_settled_def)
    ultimately show ?thesis using Cons.prems(1) by (simp add: midway_def)
  next
    case False
    then have "changes_row a {''pending'', ''failed''} s s3"
      using three_stretches(3) [OF 1 2 3] i by simp
    then show ?thesis using w0 changes_row_trans by blast
  qed
  have "midway a s0 cs s3" using cf w f by (simp add: midway_def)
  then have "changes_row a {''pending'', ''failed''} s0 s4 \<and> all_settled cs4 \<and> length cs4 = length cs"
    using 4 by (rule Cons.IH)
  then show ?case
    using three_stretches(1) [OF 1 2 3] by (simp add: res all_settled_def)
qed

lemma run_immediates_nothing: "run_immediates envs sched [] s = (s, [])"
proof -
  have "resume_in_order ks [] s = (s, [])" for ks
    by (induction ks) (simp_all add: resume_call_def)
  then show ?thesis by (simp add: run_immediates_def)
qed

lemma run_immediates_changes:
  assumes "set q \<subseteq> {a}" and "q \<noteq> []"
  shows "changes_row a {''pending'', ''failed''} s (fst (run_immediates envs sched q s))"
proof -
  let ?cs0 = "map (\<lambda>(k, i). (i, envs k, Queued)) (enumerate 0 q)"
  obtain s1 cs1 where 1: "resume_in_order ([0..<length q] @ sched) ?cs0 s = (s1, cs1)"
    by (cases "resume_in_order ([0..<length q] @ sched) ?cs0 s")
  obtain s2 cs2 where 2: "settle_all cs1 s1 = (s2, cs2)" by (cases "settle_all cs1 s1")
  have "q ! k = a" if "k < length q" for k
    using assms(1) nth_mem [OF that] by blast
  then have "calls_for a ?cs0"
    by (auto simp: calls_for_def list_all_iff in_set_enumerate_eq)
  moreover have "\<not> all_settled ?cs0"
    using assms(2) by (cases q) (simp_all add: all_settled_def enumerate_simps)
  ultimately have "midway a s ?cs0 s" by (simp add: midway_def)
  then have "midway a s cs1 s1" using 1 by (rule midway_resume_in_order)
  then have "changes_row a {''pending'', ''failed''} s s2"
    using midway_settle_all [OF _ 2] by simp
  then show ?thesis by (simp add: run_immediates_def 1 2)
qed

lemma handleVideoCompletion_changes:
  "changes_row (video_id v) {''failed'', ''completed''} s (handleVideoCompletion e v d s)"
  by (auto simp: handleVideoCompletion_def update_def updateStatus_def changes_row_map
      split: sum.splits)

lemma processPendingVideos_changes:
  assumes "findFirstByStatus ''pending'' s = Some p" and "distinct (map video_id s)"
  shows "changes_row (video_id p) {''failed'', ''pending'', ''completed''} s
           (fst (processPendingVideos e s))"
    and "snd (processPendingVideos e s) = (Some p, [])"
proof -
  have p: "p \<in> set s" "status p = ''pending''"
    using assms(1) by (auto simp: findFirstByStatus_def dest: find_Some_set)
  have same: "changes_row (video_id p) {''failed'', ''pending'', ''completed''} s s"
    using same_id_same_row [OF assms(2) _ p(1)] p(2) by (auto intro!: changes_row_refl)
  have hv: "changes_row (video_id p) {''failed'', ''pending'', ''completed''} s
              (handleVideoCompletion e p d s)" for d
    by (rule changes_row_mono [OF handleVideoCompletion_changes]) auto
  show "changes_row (video_id p) {''failed'', ''pending'', ''completed''} s
           (fst (processPendingVideos e s))"
    using same hv
    by (auto simp: processPendingVideos_def check_status_def assms(1) updateStatus_def
          changes_row_map split: sum.splits option.splits)
  show "snd (processPendingVideos e s) = (Some p, [])"
    by (simp add: processPendingVideos_def assms(1) split: sum.splits)
qed

lemma processPendingVideos_none:
  "findFirstByStatus ''pending'' s = None \<Longrightarrow>
     processPendingVideos e s = (s, None, processNextWaitingVideo s)"
  by (simp add: processPendingVideos_def)

section \<open>Stores at rest\<close>




lemma processNextWaitingVideo_ids:
  "set (processNextWaitingVideo s) \<subseteq> (case findFirstByStatus ''waiting'' s of None \<Rightarrow> {} | Some v \<Rightarrow> {video_id v})"
  by (simp add: processNextWaitingVideo_def split: option.splits)








lemma processPendingVideos_some:
  "findFirstByStatus ''pending'' s = Some p \<Longrightarrow> snd (processPendingVideos e s) = (Some p, [])"
  by (simp add: processPendingVideos_def split: sum.splits)


lemma find_filter_hd:
  "find P xs = (case filter P xs of [] \<Rightarrow> None | x # ys \<Rightarrow> Some x)"
  by (induction xs) simp_all

lemma first_waiting:
  assumes "sorted_wrt (\<lambda>a b. created_at a \<le> created_at b) (selectByStatus ''waiting'' s)"
    and "A \<in> set s" and "status A = ''waiting''"
  shows "\<exists>P. findFirstByStatus ''waiting'' s = Some P \<and> P \<in> set s \<and> status P = ''waiting'' \<and>
             (\<forall>w \<in> set (selectByStatus ''waiting'' s). created_at P \<le> created_at w)"
proof -
  have A: "A \<in> set (selectByStatus ''waiting'' s)"
    using assms(2,3) by (simp add: selectByStatus_def)
  then obtain f rest where ws: "selectByStatus ''waiting'' s = f # rest"
    by (cases "selectByStatus ''waiting'' s") auto
  have "f \<in> set (selectByStatus ''waiting'' s)" using ws by simp
  then have f: "f \<in> set s" "status f = ''waiting''" by (simp_all add: selectByStatus_def)
  have "\<forall>w \<in> set (selectByStatus ''waiting'' s). created_at f \<le> created_at w"
    using assms(1) ws by auto
  moreover have "findFirstByStatus ''waiting'' s = Some f"
    using ws by (simp add: findFirstByStatus_def find_filter_hd selectByStatus_def)
  ultimately show ?thesis using f by blast
qed

lemma polled_row:
  assumes "distinct (map video_id s)" and "findFirstByStatus ''pending'' s = Some v"
  shows "selectByID (video_id v) s = Some v"
  using assms by (auto simp: findFirstByStatus_def dest: find_Some_set intro: selectByID_distinct)

lemma tick_polls_only:
  assumes "findFirstByStatus ''pending'' s = Some v"
  shows "tick e envs sched s = (fst (processPendingVideos e s), [])"
proof -
  obtain s1 where "processPendingVideos e s = (s1, Some v, [])"
    using processPendingVideos_some [OF assms, of e] by (cases "processPendingVideos e s") simp
  then show ?thesis by (simp add: tick_def processTaskQueue_def run_immediates_nothing)
qed

text \<open>A call that nothing interrupts is \<open>synthesizeVideo\<close> as a whole.\<close>

lemma synthesizeVideo_stretches:
  "synthesizeVideo e i s =
     (case synthesize_step e i Queued s of
        (s1, c1) \<Rightarrow>
          (case synthesize_step e i c1 s1 of
             (s2, c2) \<Rightarrow>
               (case synthesize_step e i c2 s2 of
                  (s3, c3) \<Rightarrow> (s3, case c3 of Settled r \<Rightarrow> r | _ \<Rightarrow> None))))"
  by (auto simp: synthesizeVideo_def synthesize_try_def audio_of_video_def submit_video_def
        callFace2FaceAPI_def synthesize_step_def synthesize_begin_def synthesize_with_audio_def
        synthesize_submitted_def synthesize_catch_def Let_def
      split: option.splits sum.splits prod.splits)

section \<open>Evaluating the service on the examples\<close>

lemmas example_defs = video_row_def gateways_def

lemmas service_defs = tick_def processTaskQueue_def processPendingVideos_def
  processNextWaitingVideo_def check_status_def handleVideoCompletion_def synthesizeVideo_def
  synthesize_try_def submit_video_def callFace2FaceAPI_def audio_of_video_def or_number_def
  or_string_def findFirstByStatus_def selectByStatus_def selectByID_def update_def
  updateStatus_def in_flight_def run_def Let_def

lemmas call_defs = run_immediates_def resume_call_def synthesize_step_def synthesize_begin_def
  synthesize_with_audio_def synthesize_submitted_def synthesize_catch_def enumerate_simps

section \<open>The properties\<close>

subsection \<open>Single flight\<close>




subsection \<open>Promotion in arrival order\<close>

text \<open>
  Claim C2 says that of two waiting jobs the tick promotes the one created earlier, that
  is, that \<open>findFirstByStatus\<close> returns the waiting job with the earliest creation time.
  The query has no ORDER BY: it returns the first waiting row of the table. Where the
  waiting rows stand in the table in the order of their creation times (equal times
  allowed), ids are unique and no job is pending, the tick queues the first waiting row
  \<open>P\<close> (twice) and no other. No waiting job was created before \<open>P\<close>, and \<open>P\<close> is \<open>A\<close>
  when \<open>A\<close> was created strictly before every other waiting job. A waiting job \<open>B\<close>
  created after some waiting job \<open>A\<close> is not queued and is left as it was, and \<open>P\<close> ends
  pending or failed, however the two calls interleave.
\<close>

theorem fifo_promotion_amended:
  assumes "distinct (map video_id s)"
    and "sorted_wrt (\<lambda>a b. created_at a \<le> created_at b) (selectByStatus ''waiting'' s)"
    and "selectByStatus ''pending'' s = []"
    and "A \<in> set s" and "status A = ''waiting''"
    and "B \<in> set s" and "status B = ''waiting''"
    and "created_at A < created_at B"
  shows "\<exists>P. findFirstByStatus ''waiting'' s = Some P \<and> status P = ''waiting'' \<and>
           (\<forall>w \<in> set (selectByStatus ''waiting'' s). created_at P \<le> created_at w) \<and>
           ((\<forall>w \<in> set (selectByStatus ''waiting'' s). w \<noteq> A \<longrightarrow> created_at A < created_at w)
              \<longrightarrow> P = A) \<and>
           snd (snd (processTaskQueue e s)) = [video_id P, video_id P] \<and>
           video_id B \<noteq> video_id P \<and>
           B \<in> set (fst (tick e envs sched s)) \<and>
           (\<exists>P'. selectByID (video_id P) (fst (tick e envs sched s)) = Some P' \<and>
                 (status P' = ''pending'' \<or> status P' = ''failed''))"
proof -
  obtain P where first: "findFirstByStatus ''waiting'' s = Some P"
    and P: "P \<in> set s" "status P = ''waiting''"
    and least: "\<forall>w \<in> set (selectByStatus ''waiting'' s). created_at P \<le> created_at w"
    using first_waiting [OF assms(2,4,5)] by blast
  have Aw: "A \<in> set (selectByStatus ''waiting'' s)" and Pw: "P \<in> set (selectByStatus ''waiting'' s)"
    using assms(4,5) P by (simp_all add: selectByStatus_def)
  have PA: "created_at P \<le> created_at A" using least Aw by blast
  have only: "P = A"
    if "\<forall>w \<in> set (selectByStatus ''waiting'' s). w \<noteq> A \<longrightarrow> created_at A < created_at w"
    using that Pw PA by fastforce
  have nopend: "findFirstByStatus ''pending'' s = None"
    using assms(3) by (simp add: findFirstByStatus_def find_None_filter selectByStatus_def)
  have q: "processTaskQueue e s = (s, None, [video_id P, video_id P])"
    using first nopend
    by (simp add: processTaskQueue_def processPendingVideos_def processNextWaitingVideo_def)
  have t: "fst (tick e envs sched s) = fst (run_immediates envs sched [video_id P, video_id P] s)"
    by (simp add: tick_def q)
  have c: "changes_row (video_id P) {''pending'', ''failed''} s (fst (tick e envs sched s))"
    unfolding t by (rule run_immediates_changes) simp_all
  have ne: "video_id B \<noteq> video_id P"
    using same_id_same_row [OF assms(1,6) P(1)] assms(8) PA by auto
  then have B: "B \<in> set (fst (tick e envs sched s))"
    using changes_row_keeps [OF c assms(6)] by simp
  have "selectByID (video_id P) s = Some P"
    using assms(1) P(1) by (rule selectByID_distinct)
  then have "\<exists>P'. selectByID (video_id P) (fst (tick e envs sched s)) = Some P' \<and>
               status P' \<in> {''pending'', ''failed''}"
    by (rule changes_row_selectByID [OF c])
  then show ?thesis using first P(2) least only q ne B by auto
qed

theorem fifo_promotion_amended_witness:
  "findFirstByStatus ''waiting''
     [video_row 1 ''waiting'' 100, video_row 2 ''waiting'' 200, video_row 3 ''waiting'' 200] =
     Some (video_row 1 ''waiting'' 100) \<and>
   snd (snd (processTaskQueue gateways
     [video_row 1 ''waiting'' 100, video_row 2 ''waiting'' 200, video_row 3 ''waiting'' 200])) =
     [1, 1] \<and>
   video_row 2 ''waiting'' 200 \<in>
     set (fst (tick gateways (\<lambda>k. gateways) [1, 0, 0, 1]
       [video_row 1 ''waiting'' 100, video_row 2 ''waiting'' 200, video_row 3 ''waiting'' 200]))"
  using fifo_promotion_amended [of
          "[video_row 1 ''waiting'' 100, video_row 2 ''waiting'' 200, video_row 3 ''waiting'' 200]"
          "video_row 1 ''waiting'' 100" "video_row 2 ''waiting'' 200" gateways "\<lambda>k. gateways"
          "[1, 0, 0, 1]"]
  by (simp add: example_defs selectByStatus_def)

text \<open>
  C2 as stated fails where the table order is not the order of creation: row 1 was
  created at 200 and row 2 at 100, both wait, and the tick promotes row 1.
\<close>

theorem fifo_promotion_counterexample:
  "created_at (video_row 2 ''waiting'' 100) < created_at (video_row 1 ''waiting'' 200) \<and>
   findFirstByStatus ''waiting'' [video_row 1 ''waiting'' 200, video_row 2 ''waiting'' 100] =
     Some (video_row 1 ''waiting'' 200) \<and>
   snd (snd (processTaskQueue gateways [video_row 1 ''waiting'' 200, video_row 2 ''waiting'' 100])) =
     [1, 1] \<and>
   map status (fst (tick gateways (\<lambda>k. gateways) [0, 1, 0, 1]
                 [video_row 1 ''waiting'' 200, video_row 2 ''waiting'' 100])) =
     [''pending'', ''waiting'']"
  by (simp add: example_defs service_defs call_defs)

subsection \<open>Retry\<close>

text \<open>
  Claim C3 says that retrying a failed job clears its remote handle and its audio
  reference, sets progress to 0 and status to waiting, and that retrying any other job
  is rejected and changes nothing. \<open>retryFailedTask\<close> writes the status, the message and
  the progress only: for a failed job the row after the retry is the row before with
  status waiting, message \<open>Retrying task...\<close> and progress 0, every other column
  (\<open>code\<close> and \<open>audio_path\<close> among them) as it was; for a job in another status the call
  throws and the store is unchanged.
\<close>

theorem retry_amended:
  "selectByID i s = Some v \<Longrightarrow>
     (status v = ''failed'' \<longrightarrow>
        snd (retryFailedTask i s) = Inr True \<and>
        selectByID i (fst (retryFailedTask i s)) =
          Some (v\<lparr>status := ''waiting'', message := Some ''Retrying task...'', progress := Some 0\<rparr>)) \<and>
     (status v \<noteq> ''failed'' \<longrightarrow>
        retryFailedTask i s = (s, Inl (''Task is not in failed status: '' @ string_of_int i)))"
  by (auto simp: retryFailedTask_def selectByID_update dest: selectByID_video_id)

theorem retry_amended_witness:
  "selectByID 1 (fst (retryFailedTask 1 [video_row 1 ''failed'' 100])) =
     Some (video_row 1 ''waiting'' 100\<lparr>message := Some ''Retrying task...'', progress := Some 0\<rparr>) \<and>
   retryFailedTask 1 [video_row 1 ''completed'' 100] =
     ([video_row 1 ''completed'' 100], Inl ''Task is not in failed status: 1'')"
proof -
  have "string_of_int 1 = ''1''" by code_simp
  then show ?thesis
    using retry_amended [of 1 "[video_row 1 ''failed'' 100]" "video_row 1 ''failed'' 100"]
      retry_amended [of 1 "[video_row 1 ''completed'' 100]" "video_row 1 ''completed'' 100"]
    by (simp add: example_defs selectByID_def)
qed

text \<open>
  C3 as stated fails: a failed job with the handle h1 and the audio a1.wav keeps both
  when it is retried.
\<close>

theorem retry_counterexample:
  "status (video_row 1 ''failed'' 100\<lparr>code := Some ''h1'', audio_path := Some ''a1.wav''\<rparr>) = ''failed'' \<and>
   retryFailedTask 1 [video_row 1 ''failed'' 100\<lparr>code := Some ''h1'', audio_path := Some ''a1.wav''\<rparr>] =
     ([video_row 1 ''waiting'' 100
         \<lparr>code := Some ''h1'', audio_path := Some ''a1.wav'',
          message := Some ''Retrying task...'', progress := Some 0\<rparr>], Inr True)"
  by (simp add: example_defs retryFailedTask_def selectByID_def update_def)

subsection \<open>Cancel\<close>

text \<open>
  Claim C4: cancelling a job whose status is waiting, processing or pending succeeds and
  leaves it failed with the message \<open>Task cancelled by user\<close>; cancelling a job in any
  other status (completed and failed among them), or a job that does not exist, throws
  and leaves the store unchanged.
\<close>

theorem cancelTask_guard:
  "(\<forall>v. selectByID i s = Some v \<and> status v \<in> {''waiting'', ''processing'', ''pending''} \<longrightarrow>
        snd (cancelTask i s) = Inr True \<and>
        (\<exists>v'. selectByID i (fst (cancelTask i s)) = Some v' \<and> status v' = ''failed'' \<and>
              message v' = Some ''Task cancelled by user'')) \<and>
   (\<forall>v. selectByID i s = Some v \<and> status v \<notin> {''waiting'', ''processing'', ''pending''} \<longrightarrow>
        cancelTask i s = (s, Inl (''Cannot cancel task in status: '' @ status v))) \<and>
   (selectByID i s = None \<longrightarrow>
        cancelTask i s = (s, Inl (''Task not found: '' @ string_of_int i)))"
  by (auto simp: cancelTask_def selectByID_update dest: selectByID_video_id)

theorem cancelTask_guard_witness:
  "snd (cancelTask 1 [video_row 1 ''pending'' 100]) = Inr True \<and>
   map status (fst (cancelTask 1 [video_row 1 ''pending'' 100])) = [''failed''] \<and>
   cancelTask 1 [video_row 1 ''completed'' 100] =
     ([video_row 1 ''completed'' 100], Inl ''Cannot cancel task in status: completed'') \<and>
   cancelTask 1 [video_row 1 ''failed'' 100] =
     ([video_row 1 ''failed'' 100], Inl ''Cannot cancel task in status: failed'') \<and>
   cancelTask 7 [video_row 1 ''pending'' 100] =
     ([video_row 1 ''pending'' 100], Inl ''Task not found: 7'')"
proof -
  have "string_of_int 7 = ''7''" by code_simp
  then show ?thesis
    using cancelTask_guard [of 1 "[video_row 1 ''pending'' 100]"]
      cancelTask_guard [of 1 "[video_row 1 ''completed'' 100]"]
      cancelTask_guard [of 1 "[video_row 1 ''failed'' 100]"]
      cancelTask_guard [of 7 "[video_row 1 ''pending'' 100]"]
    by (simp add: example_defs selectByID_def cancelTask_def update_def)
qed

text \<open>
  Claim C10: a successful cancel sets exactly the status (failed), the message
  (\<open>Task cancelled by user\<close>) and the progress (0) of the job, and leaves its other
  columns and every other row unchanged.
\<close>

theorem cancelTask_frame:
  "selectByID i s = Some v \<Longrightarrow> status v \<in> {''waiting'', ''processing'', ''pending''} \<Longrightarrow>
     fst (cancelTask i s) =
       map (\<lambda>w. if video_id w = i
                 then w\<lparr>status := ''failed'', message := Some ''Task cancelled by user'',
                        progress := Some 0\<rparr>
                 else w) s \<and>
     selectByID i (fst (cancelTask i s)) =
       Some (v\<lparr>status := ''failed'', message := Some ''Task cancelled by user'', progress := Some 0\<rparr>)"
  by (auto simp: cancelTask_def update_def selectByID_update [unfolded update_def]
      dest: selectByID_video_id)

theorem cancelTask_frame_witness:
  "fst (cancelTask 1
     [video_row 1 ''pending'' 100
        \<lparr>audio_path := Some ''a1.wav'', code := Some ''h1'', file_path := Some ''r0.mp4'',
         duration := Some 3\<rparr>,
      video_row 2 ''waiting'' 200]) =
     [video_row 1 ''failed'' 100
        \<lparr>audio_path := Some ''a1.wav'', code := Some ''h1'', file_path := Some ''r0.mp4'',
         duration := Some 3, message := Some ''Task cancelled by user'', progress := Some 0\<rparr>,
      video_row 2 ''waiting'' 200]"
  using cancelTask_frame [of 1 "[video_row 1 ''pending'' 100
        \<lparr>audio_path := Some ''a1.wav'', code := Some ''h1'', file_path := Some ''r0.mp4'',
         duration := Some 3\<rparr>,
      video_row 2 ''waiting'' 200]" "video_row 1 ''pending'' 100
        \<lparr>audio_path := Some ''a1.wav'', code := Some ''h1'', file_path := Some ''r0.mp4'',
         duration := Some 3\<rparr>"]
  by (simp add: example_defs selectByID_def)

subsection \<open>Rejected submission\<close>

text \<open>
  Claim C5 says that a job whose submission the render service rejects with a message
  ends failed, with that message and with no remote handle set. \<open>synthesizeVideo\<close>
  writes the code of the request it sent in both branches: in production mode, when the
  service answers with a code other than 10000 and a non-empty message, the call ends
  without rethrowing and leaves the job failed with that message, its audio path, and
  \<open>param\<close> and \<open>code\<close> set to the request and its code.
\<close>

theorem submit_rejected_amended:
  assumes "selectByID i s = Some v"
    and "modelDao_selectByID e (model_id v) = Some m"
    and "audio_of_video e v m = Inr a"
    and "\<not> development e"
    and "makeVideoApi e (F2f_param a (video_path m) (randomUUID e)) = Inr r"
    and "result_code r \<noteq> 10000"
    and "result_msg r \<noteq> []"
  shows "snd (synthesizeVideo e i s) = None \<and>
         selectByID i (fst (synthesizeVideo e i s)) =
           Some (v\<lparr>file_path := None, status := ''failed'', message := Some (result_msg r),
                   audio_path := Some a,
                   param := Some (F2f_param a (video_path m) (randomUUID e)),
                   code := Some (randomUUID e)\<rparr>)"
proof -
  let ?v1 = "v\<lparr>file_path := None, status := ''processing'', message := Some ''Submitting task...''\<rparr>"
  let ?s1 = "update i [Set_file_path None, Set_status ''processing'',
                       Set_message (Some ''Submitting task...'')] s"
  have i: "video_id v = i" using assms(1) by (rule selectByID_video_id)
  have s1: "selectByID i ?s1 = Some ?v1"
    using assms(1) i by (simp add: selectByID_update)
  have "audio_of_video e ?v1 m = audio_of_video e v m"
    by (simp add: audio_of_video_def Let_def split: option.splits)
  then have au: "audio_of_video e ?v1 m = Inr a"
    using assms(3) by simp
  have "synthesize_try e i ?s1 =
          Inr (update i [Set_file_path None, Set_status ''failed'',
                 Set_message (Some (result_msg r)), Set_audio_path (Some a),
                 Set_param (Some (F2f_param a (video_path m) (randomUUID e))),
                 Set_code (Some (randomUUID e))] ?s1)"
    using assms(2,4,5,6,7) au
    by (simp add: synthesize_try_def s1 submit_video_def callFace2FaceAPI_def or_string_def)
  then show ?thesis
    using assms(1) i by (simp add: synthesizeVideo_def selectByID_update)
qed

theorem submit_rejected_amended_witness:
  "selectByID 1 (fst (synthesizeVideo
     (gateways\<lparr>makeVideoApi := \<lambda>p. Inr \<lparr>result_code = 10001, result_msg = ''quota exceeded''\<rparr>\<rparr>)
     1 [video_row 1 ''waiting'' 100])) =
   Some (video_row 1 ''failed'' 100
       \<lparr>message := Some ''quota exceeded'', audio_path := Some ''a1.wav'',
        param := Some (F2f_param ''a1.wav'' ''m1.mp4'' ''h1''), code := Some ''h1''\<rparr>)"
  using submit_rejected_amended [of 1 "[video_row 1 ''waiting'' 100]" "video_row 1 ''waiting'' 100"
      "gateways\<lparr>makeVideoApi := \<lambda>p. Inr \<lparr>result_code = 10001, result_msg = ''quota exceeded''\<rparr>\<rparr>"
      "\<lparr>video_path = ''m1.mp4'', model_voice_id = Some 1\<rparr>" "''a1.wav''"
      "\<lparr>result_code = 10001, result_msg = ''quota exceeded''\<rparr>"]
  by (simp add: example_defs selectByID_def audio_of_video_def or_number_def)

text \<open>
  C5 as stated fails: after the rejection \<open>quota exceeded\<close> the job is failed with that
  message and its \<open>code\<close> is h1, the code of the rejected request.
\<close>

theorem submit_rejected_counterexample:
  "synthesizeVideo
     (gateways\<lparr>makeVideoApi := \<lambda>p. Inr \<lparr>result_code = 10001, result_msg = ''quota exceeded''\<rparr>\<rparr>)
     1 [video_row 1 ''waiting'' 100] =
   ([video_row 1 ''failed'' 100
       \<lparr>message := Some ''quota exceeded'', audio_path := Some ''a1.wav'',
        param := Some (F2f_param ''a1.wav'' ''m1.mp4'' ''h1''), code := Some ''h1''\<rparr>], None)"
  by (simp add: example_defs service_defs)

subsection \<open>Polling\<close>

text \<open>
  Claim C6 says that polling a pending job has exactly one of three outcomes: still
  pending with progress and message updated, completed with result and duration, or
  failed with the remote or probe message. There is a fourth: the job is left untouched
  when the answer has a code outside 10000, 9999, 10002 and 10003, or code 10000 with a
  data status outside 1, 2 and 3. When a job is pending the tick does nothing but poll
  the first pending row \<open>v\<close> (it queues no synthesis), and with unique ids the answer
  decides the row afterwards as follows. The path probed is what \<open>path.join\<close> makes of
  the model directory and the result; the message for an answer with code 10000 and no
  data is that of the runtime's TypeError.
\<close>

theorem poll_tick_amended:
  assumes "distinct (map video_id s)" and "findFirstByStatus ''pending'' s = Some v"
  shows
   "tick e envs sched s = (fst (processPendingVideos e s), []) \<and>
    (\<forall>r d. getVideoStatus e (code v) = Inr r \<and> response_code r = 10000 \<and>
           response_data r = Some d \<and> data_status d = 1 \<longrightarrow>
        selectByID (video_id v) (fst (processPendingVideos e s)) =
          Some (v\<lparr>status := ''pending'', message := Some (data_msg d),
                  progress := Some (data_progress d), file_path := Some []\<rparr>)) \<and>
    (\<forall>r d dur. getVideoStatus e (code v) = Inr r \<and> response_code r = 10000 \<and>
           response_data r = Some d \<and> data_status d = 2 \<and>
           (if development e then dur = 10
            else getVideoDuration e (path_join e (assetPath_model e) (data_result d)) = Inr dur) \<longrightarrow>
        selectByID (video_id v) (fst (processPendingVideos e s)) =
          Some (v\<lparr>status := ''completed'', message := Some (data_msg d),
                  progress := Some (data_progress d), file_path := Some (data_result d),
                  duration := Some dur\<rparr>)) \<and>
    (\<forall>r d err. getVideoStatus e (code v) = Inr r \<and> response_code r = 10000 \<and>
           response_data r = Some d \<and> data_status d = 2 \<and> \<not> development e \<and>
           getVideoDuration e (path_join e (assetPath_model e) (data_result d)) = Inl err \<longrightarrow>
        selectByID (video_id v) (fst (processPendingVideos e s)) =
          Some (v\<lparr>status := ''failed'', message := Some (''Completion handling failed: '' @ err),
                  progress := Some 0, file_path := Some []\<rparr>)) \<and>
    (\<forall>r. getVideoStatus e (code v) = Inr r \<and> response_code r \<in> {9999, 10002, 10003} \<longrightarrow>
        selectByID (video_id v) (fst (processPendingVideos e s)) =
          Some (v\<lparr>status := ''failed'', message := Some (response_msg r),
                  progress := Some 0, file_path := Some []\<rparr>)) \<and>
    (\<forall>r d. getVideoStatus e (code v) = Inr r \<and> response_code r = 10000 \<and>
           response_data r = Some d \<and> data_status d = 3 \<longrightarrow>
        selectByID (video_id v) (fst (processPendingVideos e s)) =
          Some (v\<lparr>status := ''failed'', message := Some (data_msg d),
                  progress := Some 0, file_path := Some []\<rparr>)) \<and>
    (\<forall>err. getVideoStatus e (code v) = Inl err \<longrightarrow>
        selectByID (video_id v) (fst (processPendingVideos e s)) =
          Some (v\<lparr>status := ''failed'', message := Some (''Status check failed: '' @ err),
                  progress := Some 0, file_path := Some []\<rparr>)) \<and>
    (\<forall>r. getVideoStatus e (code v) = Inr r \<and> response_code r = 10000 \<and>
           response_data r = None \<longrightarrow>
        selectByID (video_id v) (fst (processPendingVideos e s)) =
          Some (v\<lparr>status := ''failed'',
                  message := Some (''Status check failed: '' @ typeError_message e),
                  progress := Some 0, file_path := Some []\<rparr>)) \<and>
    (\<forall>r d. getVideoStatus e (code v) = Inr r \<and> response_code r = 10000 \<and>
           response_data r = Some d \<and> data_status d \<notin> {1, 2, 3} \<longrightarrow>
        fst (processPendingVideos e s) = s) \<and>
    (\<forall>r. getVideoStatus e (code v) = Inr r \<and>
           response_code r \<notin> {10000, 9999, 10002, 10003} \<longrightarrow>
        fst (processPendingVideos e s) = s)"
proof -
  have row: "selectByID (video_id v) s = Some v"
    using assms by (rule polled_row)
  show ?thesis
    using row tick_polls_only [OF assms(2), of e envs sched]
    by (auto simp: processPendingVideos_def assms(2) check_status_def handleVideoCompletion_def
          selectByID_update selectByID_updateStatus)
qed

theorem poll_tick_amended_witness:
  "fst (processPendingVideos gateways [video_row 1 ''pending'' 100\<lparr>code := Some ''h1''\<rparr>]) =
     [video_row 1 ''pending'' 100
        \<lparr>code := Some ''h1'', message := Some ''running'', progress := Some 40,
         file_path := Some []\<rparr>] \<and>
   fst (processPendingVideos
     (gateways\<lparr>getVideoStatus := \<lambda>c. Inr \<lparr>response_code = 10000, response_msg = ''ok'',
         response_data = Some \<lparr>data_status = 2, data_msg = ''done'',
                               data_progress = 100, data_result = ''r1.mp4''\<rparr>\<rparr>\<rparr>)
     [video_row 1 ''pending'' 100\<lparr>code := Some ''h1''\<rparr>]) =
     [video_row 1 ''completed'' 100
        \<lparr>code := Some ''h1'', message := Some ''done'', progress := Some 100,
         file_path := Some ''r1.mp4'', duration := Some 12.3\<rparr>] \<and>
   fst (processPendingVideos
     (gateways\<lparr>getVideoStatus := \<lambda>c. Inr \<lparr>response_code = 10000, response_msg = ''ok'',
         response_data = Some \<lparr>data_status = 2, data_msg = ''done'',
                               data_progress = 100, data_result = ''r1.mp4''\<rparr>\<rparr>,
        getVideoDuration := \<lambda>p. Inl ''No streams found''\<rparr>)
     [video_row 1 ''pending'' 100\<lparr>code := Some ''h1''\<rparr>]) =
     [video_row 1 ''failed'' 100
        \<lparr>code := Some ''h1'', message := Some ''Completion handling failed: No streams found'',
         progress := Some 0, file_path := Some []\<rparr>] \<and>
   fst (processPendingVideos
     (gateways\<lparr>getVideoStatus := \<lambda>c. Inr \<lparr>response_code = 10002, response_msg = ''task failed'',
         response_data = None\<rparr>\<rparr>)
     [video_row 1 ''pending'' 100\<lparr>code := Some ''h1''\<rparr>]) =
     [video_row 1 ''failed'' 100
        \<lparr>code := Some ''h1'', message := Some ''task failed'',
         progress := Some 0, file_path := Some []\<rparr>] \<and>
   fst (processPendingVideos
     (gateways\<lparr>getVideoStatus := \<lambda>c. Inl ''timeout of 30000ms exceeded''\<rparr>)
     [video_row 1 ''pending'' 100\<lparr>code := Some ''h1''\<rparr>]) =
     [video_row 1 ''failed'' 100
        \<lparr>code := Some ''h1'', message := Some ''Status check failed: timeout of 30000ms exceeded'',
         progress := Some 0, file_path := Some []\<rparr>] \<and>
   fst (processPendingVideos
     (gateways\<lparr>getVideoStatus := \<lambda>c. Inr \<lparr>response_code = 10004, response_msg = ''busy'',
         response_data = None\<rparr>\<rparr>)
     [video_row 1 ''pending'' 100\<lparr>code := Some ''h1''\<rparr>]) =
     [video_row 1 ''pending'' 100\<lparr>code := Some ''h1''\<rparr>]"
  using
    poll_tick_amended [of "[video_row 1 ''pending'' 100\<lparr>code := Some ''h1''\<rparr>]"
      "video_row 1 ''pending'' 100\<lparr>code := Some ''h1''\<rparr>" gateways]
    poll_tick_amended [of "[video_row 1 ''pending'' 100\<lparr>code := Some ''h1''\<rparr>]"
      "video_row 1 ''pending'' 100\<lparr>code := Some ''h1''\<rparr>"
      "gateways\<lparr>getVideoStatus := \<lambda>c. Inr \<lparr>response_code = 10004, response_msg = ''busy'',
         response_data = None\<rparr>\<rparr>"]
  by (simp add: example_defs service_defs)

text \<open>
  C6 as stated fails: the answer has code 10000 and data status 0 with a new message and
  progress, and the job keeps its status, its message and its progress.
\<close>

theorem poll_tick_counterexample:
  "processPendingVideos
     (gateways\<lparr>getVideoStatus := \<lambda>c. Inr \<lparr>response_code = 10000, response_msg = ''ok'',
         response_data = Some \<lparr>data_status = 0, data_msg = ''queued at the renderer'',
                               data_progress = 5, data_result = []\<rparr>\<rparr>\<rparr>)
     [video_row 1 ''pending'' 100\<lparr>code := Some ''h1'', message := Some ''accepted''\<rparr>] =
   ([video_row 1 ''pending'' 100\<lparr>code := Some ''h1'', message := Some ''accepted''\<rparr>],
    Some (video_row 1 ''pending'' 100\<lparr>code := Some ''h1'', message := Some ''accepted''\<rparr>), [])"
  by (simp add: example_defs service_defs)

subsection \<open>Queue position\<close>

text \<open>
  Claim C7 says that the queue position of a waiting job is 1 plus the number of waiting
  jobs created strictly earlier. \<open>getWaitingTasks\<close> returns the waiting rows in table
  order and numbers them 1, 2, 3 and so on: the position of a waiting job is 1 plus the
  number of waiting rows before it in the table. Where the waiting rows stand in the
  table in strictly increasing order of creation time, every waiting job is reported,
  and at 1 plus the number of waiting jobs created strictly earlier.
\<close>

theorem queuePosition_amended:
  "map task (getWaitingTasks s) = selectByStatus ''waiting'' s \<and>
   map queuePosition (getWaitingTasks s) = [1..<Suc (length (selectByStatus ''waiting'' s))] \<and>
   (sorted_wrt (\<lambda>a b. created_at a < created_at b) (selectByStatus ''waiting'' s) \<longrightarrow>
      (\<forall>j \<in> set s. status j = ''waiting'' \<longrightarrow>
         (\<exists>wt \<in> set (getWaitingTasks s). task wt = j) \<and>
         (\<forall>wt \<in> set (getWaitingTasks s). task wt = j \<longrightarrow>
            queuePosition wt =
              1 + length (filter (\<lambda>w. status w = ''waiting'' \<and> created_at w < created_at j) s))))"
proof -
  let ?ws = "selectByStatus ''waiting'' s"
  have tasks: "map task (getWaitingTasks s) = ?ws"
    by (simp add: getWaitingTasks_def Let_def o_def split_def map_snd_enumerate)
  have a: "map queuePosition (getWaitingTasks s) = map (\<lambda>x. Suc (fst x)) (enumerate 0 ?ws)"
    by (simp add: getWaitingTasks_def Let_def o_def split_def)
  have b: "map (\<lambda>x. Suc (fst x)) (enumerate 0 ?ws) = map Suc (map fst (enumerate 0 ?ws))"
    by (simp only: map_map o_def)
  have c: "map fst (enumerate 0 ?ws) = [0..<length ?ws]"
    by (simp add: map_fst_enumerate)
  have positions: "map queuePosition (getWaitingTasks s) = [1..<Suc (length ?ws)]"
    unfolding a b c map_Suc_upt by simp
  have pos: "queuePosition wt =
      1 + length (filter (\<lambda>w. status w = ''waiting'' \<and> created_at w < created_at (task wt)) s)"
    if sorted: "sorted_wrt (\<lambda>a b. created_at a < created_at b) ?ws"
      and wt: "wt \<in> set (getWaitingTasks s)" for wt
  proof -
    from wt obtain k where k: "k < length (getWaitingTasks s)" "wt = getWaitingTasks s ! k"
      by (auto simp: in_set_conv_nth)
    then have kw: "k < length ?ws" by (simp add: length_getWaitingTasks)
    have w: "task wt = ?ws ! k" "queuePosition wt = 1 + k"
      using k(2) getWaitingTasks_nth [OF kw] by simp_all
    have "length (filter (\<lambda>w. created_at w < created_at (task wt)) ?ws) = k"
      using strict_sorted_count_less [OF sorted kw] w(1) by simp
    then show ?thesis using w(2) by (simp add: waiting_filter_split)
  qed
  have ex: "\<exists>wt \<in> set (getWaitingTasks s). task wt = j"
    if "j \<in> set s" "status j = ''waiting''" for j
  proof -
    have "j \<in> set (map task (getWaitingTasks s))"
      using that by (simp add: tasks selectByStatus_def)
    then show ?thesis by auto
  qed
  show ?thesis using tasks positions pos ex by blast
qed

theorem queuePosition_amended_witness:
  "getWaitingTasks [video_row 1 ''waiting'' 100, video_row 2 ''completed'' 150, video_row 3 ''waiting'' 200] =
     [\<lparr>task = video_row 1 ''waiting'' 100, queuePosition = 1, totalInQueue = 2\<rparr>,
      \<lparr>task = video_row 3 ''waiting'' 200, queuePosition = 2, totalInQueue = 2\<rparr>] \<and>
   (2::nat) =
     1 + length (filter (\<lambda>w. status w = ''waiting'' \<and> created_at w < created_at (video_row 3 ''waiting'' 200))
       [video_row 1 ''waiting'' 100, video_row 2 ''completed'' 150, video_row 3 ''waiting'' 200])"
  using queuePosition_amended [of
      "[video_row 1 ''waiting'' 100, video_row 2 ''completed'' 150, video_row 3 ''waiting'' 200]"]
  by (simp add: getWaitingTasks_def selectByStatus_def video_row_def)

text \<open>
  C7 as stated fails for two waiting jobs created in the same millisecond: the second
  is reported at position 2, and no waiting job was created strictly earlier.
\<close>

theorem queuePosition_counterexample:
  "getWaitingTasks [video_row 1 ''waiting'' 100, video_row 2 ''waiting'' 100] ! 1 =
     \<lparr>task = video_row 2 ''waiting'' 100, queuePosition = 2, totalInQueue = 2\<rparr> \<and>
   1 + length (filter (\<lambda>w. status w = ''waiting'' \<and> created_at w < created_at (video_row 2 ''waiting'' 100))
                 [video_row 1 ''waiting'' 100, video_row 2 ''waiting'' 100]) = 1"
  by (simp add: getWaitingTasks_def selectByStatus_def video_row_def)

subsection \<open>Queueing a job\<close>

text \<open>
  Claim C8 says that a job is moved to waiting exactly when its status is draft or
  failed. The handler of \<open>POST /:id/generate\<close> reads \<open>videoDao\<close>, which its module does
  not import: for a draft job and for a failed job the request throws a ReferenceError
  before the guard, the job is not moved to waiting and no synthesis is queued.
\<close>

theorem generate_throws:
  "generate 1 [video_row 1 ''draft'' 100] =
     ([video_row 1 ''draft'' 100], Inl (ReferenceError ''videoDao''), []) \<and>
   generate 1 [video_row 1 ''failed'' 100] =
     ([video_row 1 ''failed'' 100], Inl (ReferenceError ''videoDao''), [])"
  by (simp add: generate_def generate_handler_def)

subsection \<open>Errors of the remote calls\<close>

text \<open>
  Claim C9 says that an exception of a remote call during a tick is caught at the tick
  boundary, fails the job with the message kept, and leaves the tick loop running. With
  the TTS service down, the tick on one waiting job queues \<open>synthesizeVideo\<close> twice;
  each call marks the job failed with the message and rethrows, and nothing handles the
  two rejections, in whatever order the two answers come in.
\<close>

theorem tick_rethrows_unhandled:
  "tick (gateways\<lparr>makeAudioForVideo := \<lambda>v t. Inl ''TTS service error: connect ECONNREFUSED''\<rparr>)
        (\<lambda>k. gateways\<lparr>makeAudioForVideo := \<lambda>v t. Inl ''TTS service error: connect ECONNREFUSED''\<rparr>)
        sched [video_row 1 ''waiting'' 100] =
     ([video_row 1 ''failed'' 100
         \<lparr>message := Some ''TTS service error: connect ECONNREFUSED'', progress := Some 0,
          file_path := Some []\<rparr>],
      [''TTS service error: connect ECONNREFUSED'', ''TTS service error: connect ECONNREFUSED''])"
proof -
  define msg where "msg = ''TTS service error: connect ECONNREFUSED''"
  define e where "e = gateways\<lparr>makeAudioForVideo := \<lambda>v t. Inl msg\<rparr>"
  define A where
    "A = Await_tts \<lparr>video_path = ''m1.mp4'', model_voice_id = Some 1\<rparr> \<lparr>voice_row_id = 1\<rparr> ''Hello''"
  define R where "R = Settled (Some msg)"
  define sp where
    "sp = [video_row 1 ''processing'' 100\<lparr>message := Some ''Submitting task...''\<rparr>]"
  define sf where
    "sf = [video_row 1 ''failed'' 100\<lparr>message := Some msg, progress := Some 0, file_path := Some []\<rparr>]"
  define st where
    "st = (\<lambda>(cs :: running list) s. (cs = [(1, e, A), (1, e, A)] \<and> s = sp) \<or> (cs = [(1, e, R), (1, e, A)] \<and> s = sf) \<or>
                   (cs = [(1, e, A), (1, e, R)] \<and> s = sf) \<or> (cs = [(1, e, R), (1, e, R)] \<and> s = sf))"
  have stepA: "synthesize_step e 1 A s = (updateStatus 1 ''failed'' (Some msg) (Some 0) (Some []) s, R)" for s
    by (simp add: synthesize_step_def A_def R_def e_def synthesize_catch_def)
  have stepR: "synthesize_step e 1 R s = (s, R)" for s
    by (simp add: synthesize_step_def R_def)
  have U: "updateStatus 1 ''failed'' (Some msg) (Some 0) (Some []) sp = sf"
    "updateStatus 1 ''failed'' (Some msg) (Some 0) (Some []) sf = sf"
    by (simp_all add: updateStatus_def sp_def sf_def video_row_def)
  have start: "synthesize_step e 1 Queued [video_row 1 ''waiting'' 100] = (sp, A)"
    "synthesize_step e 1 Queued sp = (sp, A)"
    by (simp_all add: synthesize_step_def synthesize_begin_def e_def gateways_def video_row_def
          sp_def A_def update_def selectByID_def or_number_def Let_def)
  have keep: "st cs' s'" if "st cs s" "resume_call k cs s = (s', cs')" for k cs s cs' s'
  proof -
    consider "k = 0" | "k = 1" | "2 \<le> k" by linarith
    then show ?thesis
    proof cases
      case 1
      then show ?thesis using that by (auto simp: st_def resume_call_def stepA stepR U)
    next
      case 2
      then show ?thesis using that by (auto simp: st_def resume_call_def stepA stepR U)
    next
      case 3
      then show ?thesis using that by (auto simp: st_def resume_call_def)
    qed
  qed
  have keeps: "st cs' s'" if "st cs s" "resume_in_order ks cs s = (s', cs')" for ks cs s cs' s'
    using that
  proof (induction ks arbitrary: cs s)
    case Nil
    then show ?case by simp
  next
    case (Cons k ks)
    obtain s1 cs1 where r: "resume_call k cs s = (s1, cs1)" by (cases "resume_call k cs s")
    have "st cs1 s1" using Cons.prems(1) r by (rule keep)
    then show ?case using Cons.IH [of cs1 s1] Cons.prems(2) r by simp
  qed
  have fin: "settle_all cs s = (sf, [(1, e, R), (1, e, R)])" if "st cs s" for cs s
    using that by (auto simp: st_def stepA stepR U)
  have q: "processTaskQueue e [video_row 1 ''waiting'' 100] = ([video_row 1 ''waiting'' 100], None, [1, 1])"
    by (simp add: processTaskQueue_def processPendingVideos_def processNextWaitingVideo_def
          findFirstByStatus_def video_row_def)
  obtain s1 cs1 where r: "resume_in_order sched [(1, e, A), (1, e, A)] sp = (s1, cs1)"
    by (cases "resume_in_order sched [(1, e, A), (1, e, A)] sp")
  have "st [(1, e, A), (1, e, A)] sp" by (simp add: st_def)
  then have "st cs1 s1" using r by (rule keeps)
  then have f: "settle_all cs1 s1 = (sf, [(1, e, R), (1, e, R)])" by (rule fin)
  have "run_immediates (\<lambda>k. e) sched [1, 1] [video_row 1 ''waiting'' 100] = (sf, [msg, msg])"
    by (simp add: run_immediates_def enumerate_simps resume_call_def start r f R_def
          upt_rec [of 0] upt_rec [of 1])
  then have "tick e (\<lambda>k. e) sched [video_row 1 ''waiting'' 100] = (sf, [msg, msg])"
    by (simp add: tick_def q)
  then show ?thesis
    by (simp add: e_def msg_def sf_def video_row_def)
qed

text \<open>
  What the claim has right, for the two remote calls of \<open>synthesizeVideo\<close>: when the
  audio cannot be made (the TTS call throws, or the voice is missing) or the submit call
  throws, the job ends failed with the message of the error, progress 0 and an empty
  file path, and the call rejects with that message.
\<close>

theorem synthesize_error_fails_job:
  assumes "selectByID i s = Some v"
    and "modelDao_selectByID e (model_id v) = Some m"
    and "audio_of_video e v m = Inl err \<or>
         (\<exists>a. audio_of_video e v m = Inr a \<and> \<not> development e \<and>
              makeVideoApi e (F2f_param a (video_path m) (randomUUID e)) = Inl err)"
  shows "snd (synthesizeVideo e i s) = Some err \<and>
         selectByID i (fst (synthesizeVideo e i s)) =
           Some (v\<lparr>status := ''failed'', message := Some err, progress := Some 0,
                   file_path := Some []\<rparr>)"
proof -
  let ?v1 = "v\<lparr>file_path := None, status := ''processing'', message := Some ''Submitting task...''\<rparr>"
  let ?s1 = "update i [Set_file_path None, Set_status ''processing'',
                       Set_message (Some ''Submitting task...'')] s"
  have i: "video_id v = i" using assms(1) by (rule selectByID_video_id)
  have s1: "selectByID i ?s1 = Some ?v1"
    using assms(1) i by (simp add: selectByID_update)
  have au: "audio_of_video e ?v1 m = audio_of_video e v m"
    by (simp add: audio_of_video_def Let_def split: option.splits)
  have "synthesize_try e i ?s1 = Inl err"
    using assms(2,3) au
    by (auto simp: synthesize_try_def s1 submit_video_def callFace2FaceAPI_def)
  then show ?thesis
    using assms(1) i
    by (simp add: synthesizeVideo_def selectByID_update selectByID_updateStatus)
qed

theorem synthesize_error_fails_job_witness:
  "synthesizeVideo (gateways\<lparr>makeVideoApi := \<lambda>p. Inl ''timeout of 30000ms exceeded''\<rparr>) 1
     [video_row 1 ''waiting'' 100] =
   ([video_row 1 ''failed'' 100
       \<lparr>message := Some ''timeout of 30000ms exceeded'', progress := Some 0,
        file_path := Some []\<rparr>], Some ''timeout of 30000ms exceeded'')"
  using synthesize_error_fails_job [of 1 "[video_row 1 ''waiting'' 100]" "video_row 1 ''waiting'' 100"
      "gateways\<lparr>makeVideoApi := \<lambda>p. Inl ''timeout of 30000ms exceeded''\<rparr>"
      "\<lparr>video_path = ''m1.mp4'', model_voice_id = Some 1\<rparr>" "''timeout of 30000ms exceeded''"]
  by (simp add: example_defs service_defs)

subsection \<open>Completed jobs\<close>

text \<open>
  A tick leaves every completed job as it is: it writes to the first pending row, or
  else to the first waiting row, and to no other (ids unique), however the calls it
  starts interleave.
\<close>

theorem completed_untouched_by_tick:
  assumes "distinct (map video_id s)" and "v \<in> set s" and "status v = ''completed''"
  shows "v \<in> set (fst (tick e envs sched s))"
proof (cases "findFirstByStatus ''pending'' s")
  case (Some p)
  have p: "p \<in> set s" "status p = ''pending''"
    using Some by (auto simp: findFirstByStatus_def dest: find_Some_set)
  have c: "changes_row (video_id p) {''failed'', ''pending'', ''completed''} s (fst (tick e envs sched s))"
    using processPendingVideos_changes(1) [OF Some assms(1), of e]
    by (simp add: tick_polls_only [OF Some])
  have "video_id v \<noteq> video_id p"
    using same_id_same_row [OF assms(1,2) p(1)] p(2) assms(3) by auto
  then show ?thesis by (rule changes_row_keeps [OF c assms(2)])
next
  case None
  show ?thesis
  proof (cases "findFirstByStatus ''waiting'' s")
    case None
    then show ?thesis
      using assms(2) \<open>findFirstByStatus ''pending'' s = None\<close>
      by (simp add: tick_def processTaskQueue_def processPendingVideos_def
            processNextWaitingVideo_def run_immediates_nothing)
  next
    case (Some a)
    have a: "a \<in> set s" "status a = ''waiting''"
      using Some by (auto simp: findFirstByStatus_def dest: find_Some_set)
    have t: "fst (tick e envs sched s) = fst (run_immediates envs sched [video_id a, video_id a] s)"
      using Some \<open>findFirstByStatus ''pending'' s = None\<close>
      by (simp add: tick_def processTaskQueue_def processPendingVideos_def
            processNextWaitingVideo_def)
    have c: "changes_row (video_id a) {''pending'', ''failed''} s (fst (tick e envs sched s))"
      unfolding t by (rule run_immediates_changes) simp_all
    have "video_id v \<noteq> video_id a"
      using same_id_same_row [OF assms(1,2) a(1)] a(2) assms(3) by auto
    then show ?thesis by (rule changes_row_keeps [OF c assms(2)])
  qed
qed

theorem completed_untouched_by_tick_witness:
  "video_row 1 ''completed'' 100 \<in>
     set (fst (tick gateways (\<lambda>k. gateways) [1, 0]
       [video_row 1 ''completed'' 100, video_row 2 ''waiting'' 200]))"
  using completed_untouched_by_tick [of "[video_row 1 ''completed'' 100, video_row 2 ''waiting'' 200]"
      "video_row 1 ''completed'' 100" gateways "\<lambda>k. gateways" "[1, 0]"]
  by (simp add: example_defs)

end
